theory Spec2Isabelle
  imports Complex_Main "HOL-Library.Sublist"
begin

section \<open>Data model\<close>

text \<open>
  Opaque JavaScript values that the pipeline only passes through (the usage object of a
  result record, the structured detail of an error record, option values).
\<close>

datatype json =
    JNull
  | JBool bool
  | JNum real
  | JStr string
  | JArr "json list"
  | JObj "(string \<times> json) list"

text \<open>
  Content blocks of an assistant message: text blocks, tool invocations with a name and a
  structured input, tool results with an error flag.
\<close>

datatype ContentBlock =
    TextBlock string
  | ToolUseBlock string json
  | ToolResultBlock string json bool

text \<open>
  A JavaScript error object: the name of its class, its message and its stack.
  \<open>detail\<close> is the structured payload a typed error may carry.
\<close>

record js_error =
  ename :: string
  message :: string
  stack :: string
  detail :: "json option"

text \<open>
  A raw output record of the CLI (\<open>CLIOutput\<close>), with the fields \<open>parseMessage\<close>
  reads. An absent (\<open>undefined\<close>) field is \<open>None\<close>. The discriminator is a string,
  since the \<open>switch\<close> has a \<open>default\<close> branch for any other value.
\<close>

record CLIMessageWrapper =
  wrapped_content :: "ContentBlock list"

record CLIErrorPayload =
  error_message :: "string option"
  error_detail :: "json option"

record CLICost =
  total_cost_usd :: "real option"

record CLIOutput =
  otype :: string
  omessage :: "CLIMessageWrapper option"
  osession_id :: "string option"
  osubtype :: "string option"
  ocontent :: "string option"
  ousage :: "json option"
  ocost :: "CLICost option"
  oerror :: "CLIErrorPayload option"

text \<open>
  The typed messages. \<open>SystemMessage\<close> is never produced by the normalizer; it is the
  variant the session-aware parser looks at (\<open>msg.type === 'system'\<close>,
  \<open>msg.data?.session_id\<close>).
\<close>

record MessageCost =
  total_cost :: "real option"

datatype Message =
    AssistantMessage "ContentBlock list" "string option"
  | ResultMessage "string option" string "string option" "json option" MessageCost
  | SystemMessage "string option" "string option"

text \<open>
  Option bags (\<open>ClaudeCodeOptions\<close>) are JavaScript objects: maps from keys to
  values, so that the spread \<open>{...a, ...b}\<close> is \<open>a ++ b\<close>.
\<close>

type_synonym options = "string \<rightharpoonup> json"

text \<open>
  What one child process does, as seen through \<open>SubprocessCLITransport\<close>
  (\<open>transport/subprocess-cli.js\<close>): \<open>connect\<close> may throw, \<open>receiveMessages\<close>
  produces the raw records and may then throw, \<open>disconnect\<close> may throw.
\<close>

record transport_run =
  connect_error :: "js_error option"
  outputs :: "CLIOutput list"
  receive_error :: "js_error option"
  disconnect_error :: "js_error option"

text \<open>
  The collaborators of \<open>InternalClient\<close> that live in other modules are parameters
  of the model: \<open>detectErrorType\<close> and \<open>createTypedError\<close> (\<open>errors.js\<close>), the
  transport (what the process does for a prompt and a configuration),
  \<open>applyEnvironmentOptions(options, loadSafeEnvironmentOptions())\<close>, and the request
  identifier built from \<open>Date.now()\<close> and \<open>Math.random()\<close>.
\<close>

record externals =
  detectErrorType :: "string \<Rightarrow> string"
  createTypedError :: "string \<Rightarrow> string \<Rightarrow> CLIErrorPayload option \<Rightarrow> js_error"
  spawn :: "string \<Rightarrow> options \<Rightarrow> transport_run"
  applyEnvironmentOptions :: "options \<Rightarrow> options"
  fresh_request_id :: "nat \<Rightarrow> string"

section \<open>Output normalizer\<close>

text \<open>
  JavaScript's \<open>s || d\<close> on an optional string: \<open>undefined\<close> and the empty string are
  falsy.
\<close>

definition str_or :: "string option \<Rightarrow> string \<Rightarrow> string" where
  "str_or s d = (case s of None \<Rightarrow> d | Some t \<Rightarrow> if t = [] then d else t)"

text \<open>
  \<open>InternalClient.parseMessage\<close>: \<open>Inr (Some m)\<close> is a returned message,
  \<open>Inr None\<close> is \<open>null\<close>, \<open>Inl e\<close> is a thrown error.
\<close>

definition parseMessage :: "externals \<Rightarrow> CLIOutput \<Rightarrow> js_error + Message option" where
  "parseMessage E output =
    (if otype output = ''assistant'' then
       (case omessage output of
          Some m \<Rightarrow> Inr (Some (AssistantMessage (wrapped_content m) (osession_id output)))
        | None \<Rightarrow> Inr (Some (AssistantMessage [] (osession_id output))))
     else if otype output = ''system'' then Inr None
     else if otype output = ''result'' then
       Inr (Some (ResultMessage (osubtype output) (str_or (ocontent output) [])
                    (osession_id output) (ousage output)
                    \<lparr>total_cost = (case ocost output of None \<Rightarrow> None
                                                      | Some c \<Rightarrow> total_cost_usd c)\<rparr>))
     else if otype output = ''error'' then
       (let errorMessage =
              str_or (case oerror output of None \<Rightarrow> None | Some e \<Rightarrow> error_message e)
                     ''Unknown error'';
            errorType = detectErrorType E errorMessage
        in Inl (createTypedError E errorType errorMessage (oerror output)))
     else Inr None)"

section \<open>The original flow: transport and normalizer\<close>

text \<open>
  The per-invocation context object of the interceptor chain (\<open>InterceptorContext\<close>),
  with its open-ended keys in \<open>extra\<close>.
\<close>

record ContextMetrics =
  startTime :: "nat option"
  endTime :: "nat option"
  tokenCount :: "nat option"
  latency :: "nat option"

record InterceptorContext =
  requestId :: "string option"
  sessionId :: "json option"
  correlationId :: "string option"
  timestamp :: "nat option"
  metadata :: "(string \<rightharpoonup> json) option"
  category :: "string option"
  complexity :: "string option"
  suggestedModel :: "string option"
  metrics :: "ContextMetrics option"
  extra :: "string \<rightharpoonup> json"

text \<open>
  What an observer of one invocation can see happen, in order. \<open>Enter\<close> and \<open>Exit\<close>
  are written by the probe interceptors defined below, the others by the client.
\<close>

datatype event =
    TransportCreated string
  | Disconnected
  | TerminalCalled string
  | ContextAllocated nat
  | Enter nat string
  | Exit nat

text \<open>
  The mutable state one invocation works on: the client's \<open>this.prompt\<close> and
  \<open>this.options\<close>, the context objects allocated so far (a context is passed by
  reference: its address is its index here), the events observed, the time in
  milliseconds, the timers armed with \<open>setTimeout\<close> (when, and for how long), and
  the exceptions that left a timer callback with nothing to catch them (when, and what).
\<close>

record world =
  this_prompt :: string
  this_options :: options
  contexts :: "InterceptorContext list"
  trace :: "event list"
  clock :: nat
  timers :: "(nat \<times> nat) list"
  uncaught :: "(nat \<times> js_error) list"

definition emit :: "event \<Rightarrow> world \<Rightarrow> world" where
  "emit ev w = w\<lparr>trace := trace w @ [ev]\<rparr>"

text \<open>
  An async generator, drained to its end: the items it yields, the error it throws if it
  ends by throwing, and the world afterwards.
\<close>

type_synonym 'a generator = "world \<Rightarrow> ('a list \<times> js_error option) \<times> world"

text \<open>
  The loop of \<open>executeOriginalFlow\<close> over the records the transport produces:
  \<open>null\<close> is skipped, a message is yielded, a thrown error ends the loop.
\<close>

fun receive_loop :: "externals \<Rightarrow> CLIOutput list \<Rightarrow> Message list \<times> js_error option" where
  "receive_loop E [] = ([], None)"
| "receive_loop E (output # rest) =
    (case parseMessage E output of
       Inl e \<Rightarrow> ([], Some e)
     | Inr None \<Rightarrow> receive_loop E rest
     | Inr (Some msg) \<Rightarrow>
         (case receive_loop E rest of (ms, r) \<Rightarrow> (msg # ms, r)))"

text \<open>
  \<open>InternalClient.executeOriginalFlow\<close>. The body of an async generator runs when the
  generator is iterated, so the transport is made from \<open>this.prompt\<close> and
  \<open>this.options\<close> as they are at that time. \<open>connect\<close> is inside the \<open>try\<close>;
  \<open>disconnect\<close> runs in the \<open>finally\<close>, and an error it throws replaces the pending
  one.
\<close>

definition executeOriginalFlow :: "externals \<Rightarrow> Message generator" where
  "executeOriginalFlow E w =
    (let t = spawn E (this_prompt w) (this_options w);
         w1 = emit (TransportCreated (this_prompt w)) w;
         body = (case connect_error t of
                   Some e \<Rightarrow> ([], Some e)
                 | None \<Rightarrow>
                     (case receive_loop E (outputs t) of
                        (ms, Some e) \<Rightarrow> (ms, Some e)
                      | (ms, None) \<Rightarrow> (ms, receive_error t)));
         w2 = emit Disconnected w1
     in ((fst body, (case disconnect_error t of Some e \<Rightarrow> Some e | None \<Rightarrow> snd body)), w2))"

section \<open>Sample collaborators and inputs\<close>

text \<open>Concrete values for the closed theorems below.\<close>

definition raw :: "string \<Rightarrow> CLIOutput" where
  "raw ty = \<lparr>otype = ty, omessage = None, osession_id = None, osubtype = None,
             ocontent = None, ousage = None, ocost = None, oerror = None\<rparr>"

definition plain_run :: "CLIOutput list \<Rightarrow> transport_run" where
  "plain_run outs = \<lparr>connect_error = None, outputs = outs, receive_error = None,
                      disconnect_error = None\<rparr>"

definition sample_externals :: "(string \<Rightarrow> CLIOutput list) \<Rightarrow> externals" where
  "sample_externals process =
     \<lparr>detectErrorType = (\<lambda>m. ''api_error''),
      createTypedError = (\<lambda>ty m d. \<lparr>ename = ty, message = m, stack = [], detail = None\<rparr>),
      spawn = (\<lambda>p opts. plain_run (process p)),
      applyEnvironmentOptions = (\<lambda>opts. opts),
      fresh_request_id = (\<lambda>t. ''req-0'')\<rparr>"

definition world0 :: "string \<Rightarrow> world" where
  "world0 p = \<lparr>this_prompt = p, this_options = Map.empty, contexts = [], trace = [],
               clock = 0, timers = [], uncaught = []\<rparr>"

definition classifying_externals :: externals where
  "classifying_externals =
     \<lparr>detectErrorType = (\<lambda>m. if m = ''rate limit exceeded'' then ''rate_limit_error''
                              else ''api_error''),
      createTypedError = (\<lambda>ty m d. \<lparr>ename = ty, message = m, stack = [], detail = None\<rparr>),
      spawn = (\<lambda>p opts. plain_run []),
      applyEnvironmentOptions = (\<lambda>opts. opts),
      fresh_request_id = (\<lambda>t. ''req-0'')\<rparr>"

definition error_record :: "string \<Rightarrow> CLIOutput" where
  "error_record text =
     (raw ''error'')\<lparr>oerror := Some \<lparr>error_message = Some text, error_detail = None\<rparr>\<rparr>"

section \<open>Vocabulary of the stream properties\<close>

text \<open>The message a record is turned into, if any (an error record gives none).\<close>

definition normalized :: "externals \<Rightarrow> CLIOutput \<Rightarrow> Message option" where
  "normalized E output = (case parseMessage E output of Inl e \<Rightarrow> None | Inr m \<Rightarrow> m)"

definition not_error :: "CLIOutput \<Rightarrow> bool" where
  "not_error output = (otype output \<noteq> ''error'')"

definition yields :: "CLIOutput \<Rightarrow> bool" where
  "yields output = (otype output = ''assistant'' \<or> otype output = ''result'')"

section \<open>Interceptor chain\<close>

record ResponseMetadata =
  md_model :: "string option"
  md_tokenCount :: "nat option"
  md_latency :: "nat option"
  md_cached :: "bool option"

record InterceptorRequest =
  prompt :: string
  options :: options
  originalPrompt :: "string option"

record InterceptorResponse =
  messages :: "Message generator"
  response_metadata :: "ResponseMetadata option"

text \<open>
  An async function run until its promise settles: \<open>Inl e\<close> is a rejection with
  \<open>e\<close>, \<open>Inr v\<close> a fulfilment with \<open>v\<close>; the clock of the world returned is the
  time of settlement. \<open>Next\<close> and \<open>Interceptor\<close> take the context by reference (its
  index in \<open>contexts\<close>). An interceptor has the \<open>name\<close> of its function.
\<close>

type_synonym 'a promise = "world \<Rightarrow> (js_error + 'a) \<times> world"

type_synonym Next = "InterceptorRequest \<Rightarrow> nat \<Rightarrow> InterceptorResponse promise"

record Interceptor =
  iname :: string
  run :: "InterceptorRequest \<Rightarrow> nat \<Rightarrow> Next \<Rightarrow> InterceptorResponse promise"

text \<open>
  Reading a property of the context: of \<open>undefined\<close> (no such object) it is a
  \<open>TypeError\<close>.
\<close>

definition type_error :: js_error where
  "type_error = \<lparr>ename = ''TypeError'',
                  message = ''Cannot read properties of undefined'', stack = [], detail = None\<rparr>"

definition context_metrics :: "world \<Rightarrow> nat \<Rightarrow> js_error + ContextMetrics option" where
  "context_metrics w context =
     (if context < length (contexts w) then Inr (metrics (contexts w ! context))
      else Inl type_error)"

text \<open>
  The final handler of \<open>buildInterceptorChain\<close>. It sets \<open>this.prompt\<close> and
  \<open>this.options\<close> from the request, makes the generator (whose body does not run yet)
  and the response, and restores \<open>this.prompt\<close> in its \<open>finally\<close>.
\<close>

definition finalHandler :: "externals \<Rightarrow> Next" where
  "finalHandler E request context w =
     (let originalPrompt = this_prompt w;
          w1 = emit (TerminalCalled (prompt request))
                 (w\<lparr>this_prompt := prompt request,
                    this_options := this_options w ++ options request\<rparr>);
          result =
            (case context_metrics w1 context of
               Inl e \<Rightarrow> Inl e
             | Inr m \<Rightarrow>
                 Inr \<lparr>messages = executeOriginalFlow E,
                      response_metadata =
                        Some \<lparr>md_model = None,
                              md_tokenCount = Option.bind m tokenCount,
                              md_latency = Option.bind m latency,
                              md_cached = None\<rparr>\<rparr>)
      in (result, w1\<lparr>this_prompt := originalPrompt\<rparr>))"

text \<open>
  The error made in the \<open>catch\<close> of the chain: a plain \<open>Error\<close> with the message
  \<open>Interceptor '<name>' failed: <message>\<close> and the stack of the caught error.
\<close>

definition contextualError :: "string \<Rightarrow> js_error \<Rightarrow> js_error" where
  "contextualError name error =
     \<lparr>ename = ''Error'',
      message = ''Interceptor '' @ [CHR 0x27] @ (if name = [] then ''anonymous'' else name)
                  @ [CHR 0x27] @ '' failed: '' @ message error,
      stack = stack error,
      detail = None\<rparr>"

text \<open>One step of the \<open>reduceRight\<close>: the async function around one interceptor.\<close>

definition wrap :: "Interceptor \<Rightarrow> Next \<Rightarrow> Next" where
  "wrap interceptor next request context w =
     (case run interceptor request context next w of
        (Inr response, w') \<Rightarrow> (Inr response, w')
      | (Inl error, w') \<Rightarrow> (Inl (contextualError (iname interceptor) error), w'))"

definition buildInterceptorChain :: "externals \<Rightarrow> Interceptor list \<Rightarrow> Next" where
  "buildInterceptorChain E interceptors =
     (if interceptors = [] then finalHandler E
      else foldr wrap interceptors (finalHandler E))"

section \<open>Interceptors used to observe the chain\<close>

text \<open>
  An interceptor that neither short-circuits nor throws:
  \<^verbatim>\<open>async (request, context, next) => {
    enter(i, request.prompt);
    const response = await next(pre(request), context);
    exit(i);
    return post(response);
  }\<close>
\<close>

record probe_spec =
  probe_name :: string
  pre :: "InterceptorRequest \<Rightarrow> InterceptorRequest"
  post :: "InterceptorResponse \<Rightarrow> InterceptorResponse"

definition probe :: "nat \<Rightarrow> probe_spec \<Rightarrow> Interceptor" where
  "probe i ps =
     \<lparr>iname = probe_name ps,
      run = (\<lambda>request context next w.
               case next (pre ps request) context (emit (Enter i (prompt request)) w) of
                 (Inl error, w') \<Rightarrow> (Inl error, w')
               | (Inr response, w') \<Rightarrow> (Inr (post ps response), emit (Exit i) w'))\<rparr>"

text \<open>The probes for a list of specifications, numbered from \<open>k\<close>.\<close>

fun probes :: "nat \<Rightarrow> probe_spec list \<Rightarrow> Interceptor list" where
  "probes k [] = []"
| "probes k (ps # pss) = probe k ps # probes (Suc k) pss"

text \<open>An interceptor that throws: \<^verbatim>\<open>async function name() { throw error; }\<close>\<close>

definition thrower :: "string \<Rightarrow> js_error \<Rightarrow> Interceptor" where
  "thrower name error = \<lparr>iname = name, run = (\<lambda>request context next w. (Inl error, w))\<rparr>"

text \<open>
  An interceptor that calls \<open>next\<close> twice:
  \<^verbatim>\<open>async function twice(request, context, next) {
    await next(request, context);
    return next(request, context);
  }\<close>
\<close>

definition calls_next_twice :: Interceptor where
  "calls_next_twice =
     \<lparr>iname = ''twice'',
      run = (\<lambda>request context next w.
               case next request context w of
                 (Inl error, w') \<Rightarrow> (Inl error, w')
               | (Inr first, w') \<Rightarrow> next request context w')\<rparr>"

text \<open>What the statements about the probes are written with.\<close>

fun enter_events :: "nat \<Rightarrow> InterceptorRequest \<Rightarrow> probe_spec list \<Rightarrow> event list" where
  "enter_events k request [] = []"
| "enter_events k request (ps # pss) =
     Enter k (prompt request) # enter_events (Suc k) (pre ps request) pss"

definition exit_events :: "nat \<Rightarrow> nat \<Rightarrow> event list" where
  "exit_events k n = map Exit (rev [k..<k + n])"

definition final_request :: "InterceptorRequest \<Rightarrow> probe_spec list \<Rightarrow> InterceptorRequest" where
  "final_request request pss = foldl (\<lambda>r ps. pre ps r) request pss"

definition final_response :: "probe_spec list \<Rightarrow> InterceptorResponse \<Rightarrow> InterceptorResponse" where
  "final_response pss response = foldr post pss response"

definition wrap_errors :: "string list \<Rightarrow> js_error \<Rightarrow> js_error" where
  "wrap_errors names error = foldr contextualError names error"

definition is_terminal_call :: "event \<Rightarrow> bool" where
  "is_terminal_call ev = (case ev of TerminalCalled p \<Rightarrow> True | _ \<Rightarrow> False)"

definition empty_context :: InterceptorContext where
  "empty_context =
     \<lparr>requestId = None, sessionId = None, correlationId = None, timestamp = None,
      metadata = None, category = None, complexity = None, suggestedModel = None,
      metrics = None, extra = Map.empty\<rparr>"

definition request_of :: "string \<Rightarrow> InterceptorRequest" where
  "request_of p = \<lparr>prompt = p, options = Map.empty, originalPrompt = Some p\<rparr>"

definition plain_probe :: "string \<Rightarrow> probe_spec" where
  "plain_probe name = \<lparr>probe_name = name, pre = (\<lambda>r. r), post = (\<lambda>r. r)\<rparr>"

section \<open>Vocabulary of the chain properties\<close>

text \<open>
  The response the final handler builds, the events of one pass through a list of probes
  and the final handler, the prefix each wrapping puts before the message, and sample
  values.
\<close>

definition terminal_response :: "externals \<Rightarrow> world \<Rightarrow> nat \<Rightarrow> InterceptorResponse" where
  "terminal_response E w context =
     \<lparr>messages = executeOriginalFlow E,
      response_metadata =
        Some \<lparr>md_model = None,
              md_tokenCount = Option.bind (metrics (contexts w ! context)) tokenCount,
              md_latency = Option.bind (metrics (contexts w ! context)) latency,
              md_cached = None\<rparr>\<rparr>"

definition pass_events :: "nat \<Rightarrow> InterceptorRequest \<Rightarrow> probe_spec list \<Rightarrow> event list" where
  "pass_events k request pss =
     enter_events k request pss @ [TerminalCalled (prompt (final_request request pss))]
       @ exit_events k (length pss)"

definition world1 :: "string \<Rightarrow> world" where
  "world1 p = (world0 p)\<lparr>contexts := [empty_context]\<rparr>"

definition failure_prefix :: "string \<Rightarrow> string" where
  "failure_prefix name =
     ''Interceptor '' @ [CHR 0x27] @ (if name = [] then ''anonymous'' else name)
       @ [CHR 0x27] @ '' failed: ''"

definition boom :: js_error where
  "boom = \<lparr>ename = ''Error'', message = ''boom'', stack = ''at piiStripper'', detail = None\<rparr>"

section \<open>The client: construction, timeout and query\<close>

record InterceptorConfig =
  cfg_interceptors :: "Interceptor list option"
  debug :: "bool option"
  timeout :: "nat option"
  maxContextSize :: "nat option"

text \<open>
  The fields of \<open>InternalClient\<close> that no method changes; \<open>this.prompt\<close> and
  \<open>this.options\<close> are in the world.
\<close>

record InternalClient =
  interceptors :: "Interceptor list"
  interceptorConfig :: "InterceptorConfig"

text \<open>
  The constructor. A key that is absent from the configuration keeps the default of the
  object literal the configuration is spread over.
\<close>

definition constructor ::
  "externals \<Rightarrow> string \<Rightarrow> options \<Rightarrow> InterceptorConfig \<Rightarrow> world \<Rightarrow> InternalClient \<times> world" where
  "constructor E prompt0 options0 config w =
     (\<lparr>interceptors = (case cfg_interceptors config of None \<Rightarrow> [] | Some is \<Rightarrow> is),
       interceptorConfig =
         \<lparr>cfg_interceptors = cfg_interceptors config,
          debug = Some (case debug config of None \<Rightarrow> False | Some d \<Rightarrow> d),
          timeout = Some (case timeout config of None \<Rightarrow> 30000 | Some t \<Rightarrow> t),
          maxContextSize =
            Some (case maxContextSize config of None \<Rightarrow> 1024 * 1024 | Some m \<Rightarrow> m)\<rparr>\<rparr>,
      w\<lparr>this_prompt := prompt0, this_options := applyEnvironmentOptions E options0\<rparr>)"

text \<open>
  The names the client module binds at run time. Its first import and its third to
  fifth are value imports; the second and the sixth (lines 2 and 6 to 15) are
  \<open>import type\<close> declarations, which are erased when the module is compiled, so the
  names they list, \<open>InterceptorTimeoutError\<close> and \<open>InterceptorChainError\<close> among
  them, are bound to nothing when the code runs. Evaluating an unbound name throws a
  \<open>ReferenceError\<close>.
\<close>

definition value_imports :: "string list" where
  "value_imports =
     [''SubprocessCLITransport'', ''detectErrorType'', ''createTypedError'',
      ''loadSafeEnvironmentOptions'', ''applyEnvironmentOptions'']"

definition type_only_imports :: "string list" where
  "type_only_imports =
     [''ClaudeCodeOptions'', ''Message'', ''CLIOutput'', ''AssistantMessage'',
      ''CLIAssistantOutput'', ''CLIErrorOutput'', ''Interceptor'', ''InterceptorContext'',
      ''InterceptorRequest'', ''InterceptorResponse'', ''InterceptorConfig'', ''Next'',
      ''InterceptorTimeoutError'', ''InterceptorChainError'']"

definition reference_error :: "string \<Rightarrow> js_error" where
  "reference_error name =
     \<lparr>ename = ''ReferenceError'', message = name @ '' is not defined'', stack = [],
      detail = None\<rparr>"

definition imported_value :: "string \<Rightarrow> js_error + string" where
  "imported_value name =
     (if name \<in> set value_imports then Inr name else Inl (reference_error name))"

text \<open>Decimal digits of a number, for the message of the timeout error.\<close>

fun decimal :: "nat \<Rightarrow> string" where
  "decimal n =
     (if n < 10 then [char_of (48 + n)]
      else decimal (n div 10) @ [char_of (48 + n mod 10)])"

definition InterceptorTimeoutError :: "nat \<Rightarrow> js_error" where
  "InterceptorTimeoutError t =
     \<lparr>ename = ''InterceptorTimeoutError'',
      message = ''Interceptor chain timed out after '' @ decimal t @ ''ms'',
      stack = [], detail = None\<rparr>"

text \<open>
  \<open>InternalClient.executeWithTimeout\<close>, for a promise made at time \<open>started\<close> and
  given with its settlement (its waits are awaits, so the timer is armed at
  \<open>started\<close>). With no timeout, or \<open>0\<close>, the promise is returned as it is. Otherwise
  a timer is armed, and when it fires its callback evaluates
  \<open>new InterceptorTimeoutError(...)\<close>: if the name is unbound the callback throws before
  it can call \<open>reject\<close>, the timeout promise stays pending and the race settles as the
  given promise does; if it is bound the race settles with whichever settles first
  (the abandoned chain goes on running, so its effects stay in the world). The timer is
  never cleared, so its callback runs whether or not the chain has settled by then. An
  exception that leaves a timer callback is recorded in \<open>uncaught\<close>; Node ends the
  process on it unless the host handles \<open>uncaughtException\<close>, and the model goes on
  as under such a handler.
\<close>

definition executeWithTimeout ::
  "InterceptorConfig \<Rightarrow> nat \<Rightarrow> (js_error + 'a) \<times> world \<Rightarrow> (js_error + 'a) \<times> world" where
  "executeWithTimeout config started settled =
     (case timeout config of
        None \<Rightarrow> settled
      | Some t \<Rightarrow>
          if t = 0 then settled
          else
            (case settled of
               (result, w) \<Rightarrow>
                 (let w1 = w\<lparr>timers := timers w @ [(started, t)]\<rparr>
                  in case imported_value ''InterceptorTimeoutError'' of
                       Inl unbound \<Rightarrow>
                         (result, w1\<lparr>uncaught := uncaught w1 @ [(started + t, unbound)]\<rparr>)
                     | Inr bound \<Rightarrow>
                         if clock w \<le> started + t then (result, w1)
                         else (Inl (InterceptorTimeoutError t), w1\<lparr>clock := started + t\<rparr>))))"

text \<open>
  The \<open>catch\<close> block of \<open>processQuery\<close>: what it throws for the error it caught.
  \<open>error instanceof C\<close> evaluates the name \<open>C\<close> first.
\<close>

definition rethrown :: "world \<Rightarrow> nat \<Rightarrow> js_error \<Rightarrow> js_error" where
  "rethrown w context error =
     (case imported_value ''InterceptorTimeoutError'' of
        Inl unbound \<Rightarrow> unbound
      | Inr timeout_class \<Rightarrow>
          if ename error = timeout_class then error
          else
            (case imported_value ''InterceptorChainError'' of
               Inl unbound \<Rightarrow> unbound
             | Inr chain_class \<Rightarrow>
                 if ename error = chain_class then error
                 else
                   (case (if context < length (contexts w)
                          then correlationId (contexts w ! context) else None) of
                      None \<Rightarrow> error
                    | Some c \<Rightarrow>
                        if c = [] then error
                        else \<lparr>ename = ''Error'',
                              message = ''['' @ c @ ''] '' @ message error,
                              stack = stack error, detail = None\<rparr>)))"

text \<open>\<open>InternalClient.processQuery\<close>, drained to its end.\<close>

definition processQuery :: "externals \<Rightarrow> InternalClient \<Rightarrow> Message generator" where
  "processQuery E this w =
     (if interceptors this = [] then executeOriginalFlow E w
      else
        (let request = \<lparr>prompt = this_prompt w, options = this_options w,
                         originalPrompt = Some (this_prompt w)\<rparr>;
             context = length (contexts w);
             w1 = emit (ContextAllocated context)
                    (w\<lparr>contexts := contexts w @
                         [\<lparr>requestId = Some (fresh_request_id E (clock w)),
                           sessionId = this_options w ''sessionId'',
                           correlationId = None,
                           timestamp = Some (clock w),
                           metadata = Some Map.empty,
                           category = None, complexity = None, suggestedModel = None,
                           metrics = None, extra = Map.empty\<rparr>]\<rparr>);
             chain = buildInterceptorChain E (interceptors this)
         in case executeWithTimeout (interceptorConfig this) (clock w1)
                   (chain request context w1) of
              (Inl error, w2) \<Rightarrow> (([], Some (rethrown w2 context error)), w2)
            | (Inr response, w2) \<Rightarrow>
                (case messages response w2 of
                   ((ms, None), w3) \<Rightarrow> ((ms, None), w3)
                 | ((ms, Some error), w3) \<Rightarrow>
                     ((ms, Some (rethrown w3 context error)), w3))))"

text \<open>
  An interceptor that waits before it calls \<open>next\<close>:
  \<^verbatim>\<open>async function slow(request, context, next) {
    await new Promise(resolve => setTimeout(resolve, ms));
    return next(request, context);
  }\<close>
\<close>

definition waits :: "nat \<Rightarrow> Interceptor" where
  "waits ms =
     \<lparr>iname = ''slow'',
      run = (\<lambda>request context next w. next request context (w\<lparr>clock := clock w + ms\<rparr>))\<rparr>"

definition config_of :: "Interceptor list \<Rightarrow> nat option \<Rightarrow> InterceptorConfig" where
  "config_of is t =
     \<lparr>cfg_interceptors = Some is, debug = None, timeout = t, maxContextSize = None\<rparr>"

section \<open>Response consumer\<close>

text \<open>
  The stream an invocation of the pipeline produces when it is iterated to its end: the
  messages it yields and the error it throws, if it ends by throwing.
\<close>

type_synonym stream = "Message list \<times> js_error option"

text \<open>
  Modelled from the spec: the class \<open>ResponseParser\<close> (\<open>parser.js\<close>) is not among
  the sources; only its subclass \<open>SessionAwareParser\<close> and its callers are. From
  sections 3 and 4.4 of the specification: the consumer owns one underlying generator
  and a consumed-message cache; the first call of any extraction method drains the
  generator fully into the cache, and every later call works on the cache. The success
  flag is derived from whether an error was thrown during consumption, so the error is
  kept with the cache. \<open>iterations\<close> counts how often the generator was iterated.
\<close>

record ResponseParser =
  generator :: stream
  parser_messages :: "Message list"
  consumed :: bool
  failure :: "js_error option"
  iterations :: nat

definition new_parser :: "stream \<Rightarrow> ResponseParser" where
  "new_parser g =
     \<lparr>generator = g, parser_messages = [], consumed = False, failure = None, iterations = 0\<rparr>"

text \<open>
  Modelled from the spec: \<open>ResponseParser.consume\<close>, the drain every extraction method
  starts with. It returns the error thrown, if any, and the consumer afterwards.
\<close>

definition consume :: "ResponseParser \<Rightarrow> js_error option \<times> ResponseParser" where
  "consume p =
     (if consumed p then (failure p, p)
      else (snd (generator p),
            p\<lparr>parser_messages := parser_messages p @ fst (generator p),
              consumed := True,
              failure := snd (generator p),
              iterations := iterations p + 1\<rparr>))"

text \<open>
  The session identifier a list of messages carries: that of the first message with a
  truthy \<open>session_id\<close>, or a system message's truthy \<open>data.session_id\<close>. This is the
  loop of \<open>SessionAwareParser.consume\<close>.
\<close>

definition truthy :: "string option \<Rightarrow> bool" where
  "truthy s = (case s of None \<Rightarrow> False | Some t \<Rightarrow> t \<noteq> [])"

fun session_id_of :: "Message \<Rightarrow> string option" where
  "session_id_of (AssistantMessage blocks sid) = sid"
| "session_id_of (ResultMessage subtype text sid usage cost) = sid"
| "session_id_of (SystemMessage sid data_sid) = sid"

fun data_session_id_of :: "Message \<Rightarrow> string option" where
  "data_session_id_of (SystemMessage sid data_sid) = data_sid"
| "data_session_id_of m = None"

fun find_session_id :: "Message list \<Rightarrow> string option" where
  "find_session_id [] = None"
| "find_session_id (msg # rest) =
     (if truthy (session_id_of msg) then session_id_of msg
      else if truthy (data_session_id_of msg) then data_session_id_of msg
      else find_session_id rest)"

text \<open>
  Modelled from the spec: the extraction methods of section 4.4, each a drain followed
  by a view of the cache. The parse of text into structured data is a parameter.
\<close>

datatype extraction =
    AsText
  | AsResult
  | AsArray
  | AsJSON
  | FindToolResults string
  | GetUsage
  | Succeeded
  | GetSessionId

datatype view =
    VText string
  | VResult "string option"
  | VMessages "Message list"
  | VJson json
  | VToolResults "json list"
  | VUsage "json option" "real option"
  | VBool bool
  | VSession "string option"

fun block_text :: "ContentBlock \<Rightarrow> string" where
  "block_text (TextBlock t) = t"
| "block_text b = []"

fun assistant_text :: "Message \<Rightarrow> string" where
  "assistant_text (AssistantMessage blocks sid) = concat (map block_text blocks)"
| "assistant_text m = []"

fun result_content :: "Message \<Rightarrow> string option" where
  "result_content (ResultMessage subtype text sid usage cost) = Some text"
| "result_content m = None"

fun result_usage :: "Message \<Rightarrow> (json option \<times> real option) option" where
  "result_usage (ResultMessage subtype text sid usage cost) = Some (usage, total_cost cost)"
| "result_usage m = None"

fun tool_results_of :: "string \<Rightarrow> Message \<Rightarrow> json list" where
  "tool_results_of name (AssistantMessage blocks sid) =
     List.map_filter
       (\<lambda>b. case b of ToolResultBlock tool v is_error \<Rightarrow>
                      if tool = name \<and> \<not> is_error then Some v else None
                  | _ \<Rightarrow> None) blocks"
| "tool_results_of name m = []"

definition last_some :: "'a option list \<Rightarrow> 'a option" where
  "last_some xs = (case filter (\<lambda>x. x \<noteq> None) xs of [] \<Rightarrow> None | ys \<Rightarrow> last ys)"

definition parse_error :: js_error where
  "parse_error = \<lparr>ename = ''ParseError'', message = ''no structured data'', stack = [],
                   detail = None\<rparr>"

definition view_of ::
  "(string \<Rightarrow> json option) \<Rightarrow> extraction \<Rightarrow> Message list \<Rightarrow> js_error + view" where
  "view_of parse m msgs =
     (case m of
        AsText \<Rightarrow> Inr (VText (concat (map assistant_text msgs)))
      | AsResult \<Rightarrow> Inr (VResult (last_some (map result_content msgs)))
      | AsArray \<Rightarrow> Inr (VMessages msgs)
      | AsJSON \<Rightarrow>
          (case parse (concat (map assistant_text msgs)) of
             None \<Rightarrow> Inl parse_error
           | Some v \<Rightarrow> Inr (VJson v))
      | FindToolResults name \<Rightarrow> Inr (VToolResults (concat (map (tool_results_of name) msgs)))
      | GetUsage \<Rightarrow>
          (case last_some (map result_usage msgs) of
             None \<Rightarrow> Inr (VUsage None None)
           | Some (u, c) \<Rightarrow> Inr (VUsage u c))
      | Succeeded \<Rightarrow> Inr (VBool True)
      | GetSessionId \<Rightarrow> Inr (VSession (find_session_id msgs)))"

definition call_method ::
  "(string \<Rightarrow> json option) \<Rightarrow> extraction \<Rightarrow> ResponseParser \<Rightarrow> (js_error + view) \<times> ResponseParser" where
  "call_method parse m p =
     (case consume p of
        (Some e, p') \<Rightarrow> ((if m = Succeeded then Inr (VBool False) else Inl e), p')
      | (None, p') \<Rightarrow> (view_of parse m (parser_messages p'), p'))"

text \<open>A sequence of extraction calls on one consumer: the results, and the consumer.\<close>

fun call_methods ::
  "(string \<Rightarrow> json option) \<Rightarrow> extraction list \<Rightarrow> ResponseParser
     \<Rightarrow> (js_error + view) list \<times> ResponseParser" where
  "call_methods parse [] p = ([], p)"
| "call_methods parse (m # ms) p =
     (case call_method parse m p of
        (r, p') \<Rightarrow> (case call_methods parse ms p' of (rs, p'') \<Rightarrow> (r # rs, p'')))"

section \<open>Session continuation\<close>
















section \<open>Vocabulary of the session properties\<close>



definition drained :: "stream \<Rightarrow> ResponseParser" where
  "drained g =
     \<lparr>generator = g, parser_messages = fst g, consumed = True, failure = snd g, iterations = 1\<rparr>"





text \<open>The invariants of the proofs: the parsers before and after an identifier is stored.\<close>

definition wf_parser :: "ResponseParser \<Rightarrow> bool" where
  "wf_parser p = (p = new_parser (generator p) \<or> p = drained (generator p))"






section \<open>Properties of the normalizer\<close>

text \<open>The two readings of \<open>s || d\<close> that the proofs use.\<close>

lemma str_or_absent [simp]: "str_or None d = d"
  by (simp add: str_or_def)

lemma str_or_present [simp]: "str_or (Some t) [] = t"
  by (simp add: str_or_def)

section \<open>Properties of the original flow\<close>

lemma normalized_yields: "(normalized E output = None) = (\<not> yields output)"
  by (simp add: normalized_def parseMessage_def yields_def Let_def split: option.splits)

lemma parse_error_iff: "(\<exists>e. parseMessage E output = Inl e) = (\<not> not_error output)"
  by (auto simp add: not_error_def parseMessage_def Let_def split: option.splits)

lemma receive_loop_snoc:
  "list_all not_error before \<Longrightarrow>
   receive_loop E (before @ [output]) =
     (fst (receive_loop E before)
        @ (case parseMessage E output of Inl e \<Rightarrow> [] | Inr None \<Rightarrow> [] | Inr (Some m) \<Rightarrow> [m]),
      (case parseMessage E output of Inl e \<Rightarrow> Some e | Inr m \<Rightarrow> None))"
proof (induction before)
  case Nil
  show ?case by (simp split: sum.splits option.splits)
next
  case (Cons a before)
  then have ne: "otype a \<noteq> ''error''" by (simp add: not_error_def)
  have ih: "receive_loop E (before @ [output]) =
     (fst (receive_loop E before)
        @ (case parseMessage E output of Inl e \<Rightarrow> [] | Inr None \<Rightarrow> [] | Inr (Some m) \<Rightarrow> [m]),
      (case parseMessage E output of Inl e \<Rightarrow> Some e | Inr m \<Rightarrow> None))"
    using Cons by simp
  have "\<not> (\<exists>e. parseMessage E a = Inl e)"
    using ne by (simp add: parse_error_iff not_error_def)
  then obtain m where pa: "parseMessage E a = Inr m"
    by (cases "parseMessage E a") auto
  show ?case
    by (cases m; cases "receive_loop E before") (simp_all add: pa ih)
qed

text \<open>
  C1. Every raw record has exactly one outcome, decided by its type alone: a system
  record and a record of any other unrecognised type give \<open>null\<close>; an assistant record
  gives an assistant message with the nested content blocks (none when the wrapper has
  no message) and the record's session identifier; a result record gives a result
  message with the record's content (the empty string when absent), the session
  identifier and the usage object unchanged, and a cost whose total is the record's
  \<open>total_cost_usd\<close>; an error record gives no message but the typed error made by
  classifying its message text, with that text and the record's error payload (the text
  \<open>Unknown error\<close> stands in when the record has no message text or an empty one).
  The mapping has no effect and keeps no state: the world after a run of the original
  flow is the same whatever the records were, and in the loop a record's outcome is the
  same whatever records were handled before it.
\<close>

theorem parseMessage_outcome:
  "parseMessage E output =
    (if otype output = ''system'' then Inr None
     else if otype output = ''assistant'' then
       Inr (Some (AssistantMessage
                    (case omessage output of None \<Rightarrow> [] | Some m \<Rightarrow> wrapped_content m)
                    (osession_id output)))
     else if otype output = ''result'' then
       Inr (Some (ResultMessage (osubtype output)
                    (case ocontent output of None \<Rightarrow> [] | Some c \<Rightarrow> c)
                    (osession_id output) (ousage output)
                    \<lparr>total_cost = (case ocost output of None \<Rightarrow> None
                                                      | Some c \<Rightarrow> total_cost_usd c)\<rparr>))
     else if otype output = ''error'' then
       (case oerror output of
          None \<Rightarrow>
            Inl (createTypedError E (detectErrorType E ''Unknown error'') ''Unknown error'' None)
        | Some payload \<Rightarrow>
            (case error_message payload of
               None \<Rightarrow>
                 Inl (createTypedError E (detectErrorType E ''Unknown error'') ''Unknown error''
                        (Some payload))
             | Some text \<Rightarrow>
                 if text = []
                 then Inl (createTypedError E (detectErrorType E ''Unknown error'')
                             ''Unknown error'' (Some payload))
                 else Inl (createTypedError E (detectErrorType E text) text (Some payload))))
     else Inr None)
   \<and> snd (executeOriginalFlow E w) = emit Disconnected (emit (TransportCreated (this_prompt w)) w)
   \<and> (list_all not_error before \<longrightarrow>
        receive_loop E (before @ [output]) =
          (fst (receive_loop E before)
             @ (case parseMessage E output of
                  Inl e \<Rightarrow> [] | Inr None \<Rightarrow> [] | Inr (Some m) \<Rightarrow> [m]),
           (case parseMessage E output of Inl e \<Rightarrow> Some e | Inr m \<Rightarrow> None)))"
proof -
  have table: "parseMessage E output =
    (if otype output = ''system'' then Inr None
     else if otype output = ''assistant'' then
       Inr (Some (AssistantMessage
                    (case omessage output of None \<Rightarrow> [] | Some m \<Rightarrow> wrapped_content m)
                    (osession_id output)))
     else if otype output = ''result'' then
       Inr (Some (ResultMessage (osubtype output)
                    (case ocontent output of None \<Rightarrow> [] | Some c \<Rightarrow> c)
                    (osession_id output) (ousage output)
                    \<lparr>total_cost = (case ocost output of None \<Rightarrow> None
                                                      | Some c \<Rightarrow> total_cost_usd c)\<rparr>))
     else if otype output = ''error'' then
       (case oerror output of
          None \<Rightarrow>
            Inl (createTypedError E (detectErrorType E ''Unknown error'') ''Unknown error'' None)
        | Some payload \<Rightarrow>
            (case error_message payload of
               None \<Rightarrow>
                 Inl (createTypedError E (detectErrorType E ''Unknown error'') ''Unknown error''
                        (Some payload))
             | Some text \<Rightarrow>
                 if text = []
                 then Inl (createTypedError E (detectErrorType E ''Unknown error'')
                             ''Unknown error'' (Some payload))
                 else Inl (createTypedError E (detectErrorType E text) text (Some payload))))
     else Inr None)"
    by (simp add: parseMessage_def str_or_def Let_def split: option.splits)
  have world: "snd (executeOriginalFlow E w) =
      emit Disconnected (emit (TransportCreated (this_prompt w)) w)"
    by (simp add: executeOriginalFlow_def Let_def)
  show ?thesis
    using table world receive_loop_snoc [of before E "output"] by blast
qed

text \<open>
  An error record with the text \<open>rate limit exceeded\<close>, after an assistant and a system
  record, under a classifier that tells that text from the others.
\<close>

theorem parseMessage_outcome_witness:
  "list_all not_error [raw ''assistant'', raw ''system'']
   \<and> parseMessage classifying_externals (error_record ''rate limit exceeded'') =
       Inl \<lparr>ename = ''rate_limit_error'', message = ''rate limit exceeded'', stack = [],
            detail = None\<rparr>
   \<and> receive_loop classifying_externals
        ([raw ''assistant'', raw ''system''] @ [error_record ''rate limit exceeded'']) =
       ([AssistantMessage [] None],
        Some \<lparr>ename = ''rate_limit_error'', message = ''rate limit exceeded'', stack = [],
              detail = None\<rparr>)"
proof -
  have h: "list_all not_error [raw ''assistant'', raw ''system'']"
    by (simp add: not_error_def raw_def)
  have p: "parseMessage classifying_externals (error_record ''rate limit exceeded'') =
       Inl \<lparr>ename = ''rate_limit_error'', message = ''rate limit exceeded'', stack = [],
            detail = None\<rparr>"
    using parseMessage_outcome [of classifying_externals "error_record ''rate limit exceeded''"]
    by (simp add: error_record_def raw_def classifying_externals_def)
  have b: "fst (receive_loop classifying_externals [raw ''assistant'', raw ''system'']) =
      [AssistantMessage [] None]"
    by (simp add: parseMessage_def raw_def)
  show ?thesis
    using h p b
      parseMessage_outcome [of classifying_externals "error_record ''rate limit exceeded''"
        "world0 []" "[raw ''assistant'', raw ''system'']"]
    by simp
qed

lemma receive_loop_messages:
  "fst (receive_loop E outs) = List.map_filter (normalized E) (takeWhile not_error outs)"
proof (induction outs)
  case Nil
  show ?case by (simp add: List.map_filter_simps)
next
  case (Cons a outs)
  show ?case
  proof (cases "parseMessage E a")
    case (Inl e)
    then have "\<not> not_error a" using parse_error_iff by blast
    with Inl show ?thesis by (simp add: List.map_filter_simps)
  next
    case (Inr m)
    then have ne: "not_error a" using parse_error_iff [of E a] by auto
    from Inr have n: "normalized E a = m" by (simp add: normalized_def)
    show ?thesis using Inr ne n Cons.IH
      by (cases m; cases "receive_loop E outs") (simp_all add: List.map_filter_simps)
  qed
qed

lemma receive_loop_error:
  "snd (receive_loop E outs) =
     (case dropWhile not_error outs of [] \<Rightarrow> None
      | output # rest \<Rightarrow> (case parseMessage E output of Inl e \<Rightarrow> Some e | Inr m \<Rightarrow> None))"
proof (induction outs)
  case Nil
  show ?case by simp
next
  case (Cons a outs)
  show ?case
  proof (cases "parseMessage E a")
    case (Inl e)
    then have "\<not> not_error a" using parse_error_iff by blast
    with Inl show ?thesis by simp
  next
    case (Inr m)
    then have ne: "not_error a" using parse_error_iff [of E a] by auto
    show ?thesis using Inr ne Cons.IH
      by (cases m; cases "receive_loop E outs") simp_all
  qed
qed

lemma length_map_filter_normalized:
  "length (List.map_filter (normalized E) xs) = length (filter yields xs)"
proof (induction xs)
  case Nil
  show ?case by (simp add: List.map_filter_simps)
next
  case (Cons a xs)
  show ?case
  proof (cases "normalized E a")
    case None
    then have "\<not> yields a" by (simp add: normalized_yields)
    with None Cons.IH show ?thesis by (simp add: List.map_filter_simps)
  next
    case (Some m)
    then have "yields a" using normalized_yields [of E a] by simp
    with Some Cons.IH show ?thesis by (simp add: List.map_filter_simps)
  qed
qed

lemma executeOriginalFlow_messages:
  "fst (fst (executeOriginalFlow E w)) =
     (case connect_error (spawn E (this_prompt w) (this_options w)) of
        Some e \<Rightarrow> []
      | None \<Rightarrow> fst (receive_loop E (outputs (spawn E (this_prompt w) (this_options w)))))"
  by (simp add: executeOriginalFlow_def Let_def split: option.splits prod.splits)

text \<open>
  C9, as the code has it. The messages yielded downstream are, in the order of the raw
  records, one message for each assistant or result record that comes before the first
  error record (and none at all when \<open>connect\<close> fails). Exactly the assistant and
  result records are turned into a message: a system record, a record of any other type
  and every record from the first error record on yield nothing.
\<close>

theorem executeOriginalFlow_order:
  "fst (fst (executeOriginalFlow E w)) =
     (case connect_error (spawn E (this_prompt w) (this_options w)) of
        Some e \<Rightarrow> []
      | None \<Rightarrow>
          List.map_filter (normalized E)
            (takeWhile not_error (outputs (spawn E (this_prompt w) (this_options w)))))
   \<and> (\<forall>output. (normalized E output = None) = (\<not> yields output))
   \<and> (\<forall>outs. length (List.map_filter (normalized E) outs) = length (filter yields outs))"
  by (simp add: executeOriginalFlow_messages receive_loop_messages normalized_yields
        length_map_filter_normalized split: option.splits)

text \<open>
  C9 as stated fails: a record of type \<open>user\<close> is neither a system nor an error record
  and is dropped, and an assistant record that follows an error record is dropped too.
\<close>

theorem unrecognised_record_dropped:
  "otype (raw ''user'') \<noteq> ''system'' \<and> otype (raw ''user'') \<noteq> ''error''
   \<and> fst (fst (executeOriginalFlow (sample_externals (\<lambda>p. [raw ''user''])) (world0 ''hi''))) = []
   \<and> fst (fst (executeOriginalFlow (sample_externals (\<lambda>p. [raw ''error'', raw ''assistant'']))
                  (world0 ''hi''))) = []"
  by (simp add: executeOriginalFlow_def sample_externals_def plain_run_def raw_def world0_def
        parseMessage_def Let_def)

section \<open>Properties of the interceptor chain\<close>

lemma trace_emit [simp]: "trace (emit ev w) = trace w @ [ev]"
  by (simp add: emit_def)

lemma wrap_probe:
  "wrap (probe k ps) next request context w =
     (case next (pre ps request) context (emit (Enter k (prompt request)) w) of
        (Inl e, w') \<Rightarrow> (Inl (contextualError (probe_name ps) e), w')
      | (Inr r, w') \<Rightarrow> (Inr (post ps r), emit (Exit k) w'))"
  by (simp add: wrap_def probe_def split: prod.splits sum.splits)

lemma exit_events_Suc: "exit_events k (Suc n) = exit_events (Suc k) n @ [Exit k]"
proof -
  have "[k..<k + Suc n] = k # [Suc k..<Suc k + n]"
    by (subst upt_rec) simp
  then show ?thesis unfolding exit_events_def by simp
qed

lemma chain_probes:
  "foldr wrap (probes k pss) h request context w =
     (case h (final_request request pss) context (w\<lparr>trace := trace w @ enter_events k request pss\<rparr>) of
        (Inl e, w') \<Rightarrow> (Inl (wrap_errors (map probe_name pss) e), w')
      | (Inr r, w') \<Rightarrow>
          (Inr (final_response pss r), w'\<lparr>trace := trace w' @ exit_events k (length pss)\<rparr>))"
proof (induction pss arbitrary: k request w)
  case Nil
  show ?case
    by (simp add: final_request_def final_response_def wrap_errors_def exit_events_def
          split: prod.splits sum.splits)
next
  case (Cons ps pss)
  let ?w1 = "emit (Enter k (prompt request)) w"
  let ?w2 = "w\<lparr>trace := trace w @ enter_events k request (ps # pss)\<rparr>"
  have w: "?w1\<lparr>trace := trace ?w1 @ enter_events (Suc k) (pre ps request) pss\<rparr> = ?w2"
    by (simp add: emit_def)
  have fr: "final_request (pre ps request) pss = final_request request (ps # pss)"
    by (simp add: final_request_def)
  have step: "foldr wrap (probes k (ps # pss)) h request context w =
      (case foldr wrap (probes (Suc k) pss) h (pre ps request) context ?w1 of
         (Inl e, w') \<Rightarrow> (Inl (contextualError (probe_name ps) e), w')
       | (Inr r, w') \<Rightarrow> (Inr (post ps r), emit (Exit k) w'))"
    by (simp add: wrap_probe)
  obtain res w' where h: "h (final_request request (ps # pss)) context ?w2 = (res, w')"
    by (cases "h (final_request request (ps # pss)) context ?w2") auto
  have inner: "foldr wrap (probes (Suc k) pss) h (pre ps request) context ?w1 =
      (case res of
         Inl e \<Rightarrow> (Inl (wrap_errors (map probe_name pss) e), w')
       | Inr r \<Rightarrow> (Inr (final_response pss r),
                    w'\<lparr>trace := trace w' @ exit_events (Suc k) (length pss)\<rparr>))"
    unfolding Cons.IH w fr h by (simp split: sum.splits)
  show ?case
    unfolding step inner h
    by (cases res) (simp_all add: wrap_errors_def final_response_def exit_events_Suc emit_def)
qed

lemma enter_events_map:
  "enter_events k request pss =
     map (\<lambda>i. Enter (k + i) (prompt (final_request request (take i pss)))) [0..<length pss]"
proof (induction pss arbitrary: k request)
  case Nil
  show ?case by simp
next
  case (Cons ps pss)
  have "[0..<Suc (length pss)] = 0 # map Suc [0..<length pss]"
    by (simp add: upt_conv_Cons map_Suc_upt del: upt_Suc)
  then show ?case
    by (simp add: Cons.IH final_request_def o_def del: upt_Suc)
qed

lemma finalHandler_ok:
  assumes "context < length (contexts w)"
  shows "finalHandler E request context w =
     (Inr \<lparr>messages = executeOriginalFlow E,
           response_metadata =
             Some \<lparr>md_model = None,
                   md_tokenCount = Option.bind (metrics (contexts w ! context)) tokenCount,
                   md_latency = Option.bind (metrics (contexts w ! context)) latency,
                   md_cached = None\<rparr>\<rparr>,
      w\<lparr>this_options := this_options w ++ options request,
        trace := trace w @ [TerminalCalled (prompt request)]\<rparr>)"
  using assms by (simp add: finalHandler_def context_metrics_def emit_def Let_def)

lemma pass_chain:
  assumes "context < length (contexts w)"
  shows "foldr wrap (probes k pss) (finalHandler E) request context w =
     (Inr (final_response pss (terminal_response E w context)),
      w\<lparr>this_options := this_options w ++ options (final_request request pss),
        trace := trace w @ pass_events k request pss\<rparr>)"
  using assms
  by (simp add: chain_probes finalHandler_ok terminal_response_def pass_events_def)

lemma buildInterceptorChain_foldr:
  "buildInterceptorChain E xs = foldr wrap xs (finalHandler E)"
  by (simp add: buildInterceptorChain_def)

text \<open>
  C3. For every list of \<open>N\<close> interceptors that neither short-circuit nor throw (the
  probes of any \<open>N\<close> specifications, whatever their names and their changes to the
  request and to the response), one run of the composed chain calls the final handler
  exactly once, and the calls are observed in the order: interceptor \<open>0\<close>, \<open>1\<close>, ...,
  \<open>N-1\<close>, the final handler, then the returns of \<open>N-1\<close> back to \<open>0\<close>. Interceptor
  \<open>0\<close> sees the original request, interceptor \<open>i\<close> the request as changed by the
  \<open>i\<close> before it, and the response is changed by interceptor \<open>0\<close> last.
\<close>

theorem chain_call_order:
  assumes "context < length (contexts w)"
  shows "fst (buildInterceptorChain E (probes 0 pss) request context w) =
           Inr (final_response pss (terminal_response E w context))
       \<and> trace (snd (buildInterceptorChain E (probes 0 pss) request context w)) =
           trace w
           @ map (\<lambda>i. Enter i (prompt (final_request request (take i pss)))) [0..<length pss]
           @ [TerminalCalled (prompt (final_request request pss))]
           @ map Exit (rev [0..<length pss])
       \<and> length (filter is_terminal_call
             (drop (length (trace w))
                (trace (snd (buildInterceptorChain E (probes 0 pss) request context w))))) = 1"
proof -
  have run: "buildInterceptorChain E (probes 0 pss) request context w =
     (Inr (final_response pss (terminal_response E w context)),
      w\<lparr>this_options := this_options w ++ options (final_request request pss),
        trace := trace w @ pass_events 0 request pss\<rparr>)"
    using assms by (simp add: buildInterceptorChain_foldr pass_chain)
  have ev: "pass_events 0 request pss =
      map (\<lambda>i. Enter i (prompt (final_request request (take i pss)))) [0..<length pss]
      @ [TerminalCalled (prompt (final_request request pss))]
      @ map Exit (rev [0..<length pss])"
    by (simp add: pass_events_def enter_events_map exit_events_def)
  have cnt: "length (filter is_terminal_call (pass_events 0 request pss)) = 1"
    unfolding ev by (simp add: is_terminal_call_def filter_map o_def)
  show ?thesis
    unfolding run using ev cnt by simp
qed

text \<open>The order of two probes around the final handler.\<close>

theorem chain_call_order_witness:
  "0 < length (contexts (world1 ''hi''))
   \<and> trace (snd (buildInterceptorChain (sample_externals (\<lambda>p. []))
                 (probes 0 [plain_probe ''a'', plain_probe ''b'']) (request_of ''hi'') 0
                 (world1 ''hi''))) =
       [Enter 0 ''hi'', Enter 1 ''hi'', TerminalCalled ''hi'', Exit 1, Exit 0]"
  using chain_call_order [of 0 "world1 ''hi''" "sample_externals (\<lambda>p. [])"
      "[plain_probe ''a'', plain_probe ''b'']" "request_of ''hi''"]
  by (simp add: world1_def world0_def final_request_def plain_probe_def request_of_def)

lemma wrap_twice:
  "wrap calls_next_twice next request context w =
     (case next request context w of
        (Inl e, w') \<Rightarrow> (Inl (contextualError ''twice'' e), w')
      | (Inr first, w') \<Rightarrow>
          (case next request context w' of
             (Inl e, w'') \<Rightarrow> (Inl (contextualError ''twice'' e), w'')
           | (Inr r, w'') \<Rightarrow> (Inr r, w'')))"
  by (simp add: wrap_def calls_next_twice_def split: prod.splits sum.splits)

lemma map_add_twice: "m ++ n ++ n = m ++ n"
  by (rule ext) (simp add: map_add_def split: option.splits)

lemma twice_pass:
  assumes "context < length (contexts w)"
  shows "wrap calls_next_twice (foldr wrap (probes k pss) (finalHandler E)) request context w =
     (Inr (final_response pss (terminal_response E w context)),
      w\<lparr>this_options := this_options w ++ options (final_request request pss),
        trace := trace w @ pass_events k request pss @ pass_events k request pss\<rparr>)"
proof -
  let ?w1 = "w\<lparr>this_options := this_options w ++ options (final_request request pss),
               trace := trace w @ pass_events k request pss\<rparr>"
  have c1: "context < length (contexts ?w1)" using assms by simp
  have t: "terminal_response E ?w1 context = terminal_response E w context"
    by (simp add: terminal_response_def)
  show ?thesis
    unfolding wrap_twice pass_chain [OF assms] using pass_chain [OF c1, of k pss E request]
    by (simp add: t map_add_twice)
qed

lemma no_terminal_enter: "filter is_terminal_call (enter_events k request pss) = []"
  by (induction pss arbitrary: k request) (simp_all add: is_terminal_call_def)

lemma no_terminal_exit: "filter is_terminal_call (exit_events k n) = []"
  by (simp add: exit_events_def is_terminal_call_def filter_map o_def)

lemma one_terminal_pass: "length (filter is_terminal_call (pass_events k request pss)) = 1"
  by (simp add: pass_events_def no_terminal_enter no_terminal_exit is_terminal_call_def)

text \<open>
  C7, as the code has it. The chain has no guard against a second call of \<open>next\<close>: an
  interceptor that calls \<open>next\<close> twice, anywhere among interceptors that pass through,
  makes the final handler run twice, and the chain settles without a failure.
\<close>

theorem next_twice_runs_terminal_twice:
  assumes "context < length (contexts w)"
  shows "\<exists>response w'.
           buildInterceptorChain E
             (probes 0 outer @ calls_next_twice # probes (Suc (length outer)) inner)
             request context w = (Inr response, w')
         \<and> length (filter is_terminal_call (drop (length (trace w)) (trace w'))) = 2"
proof -
  let ?h = "wrap calls_next_twice (foldr wrap (probes (Suc (length outer)) inner) (finalHandler E))"
  let ?w1 = "w\<lparr>trace := trace w @ enter_events 0 request outer\<rparr>"
  let ?r = "final_request request outer"
  have c1: "context < length (contexts ?w1)" using assms by simp
  have chain: "buildInterceptorChain E
        (probes 0 outer @ calls_next_twice # probes (Suc (length outer)) inner)
      = foldr wrap (probes 0 outer) ?h"
    by (simp add: buildInterceptorChain_foldr)
  show ?thesis
    unfolding chain chain_probes twice_pass [OF c1]
    by (simp add: no_terminal_enter no_terminal_exit one_terminal_pass)
qed

text \<open>One probe around the interceptor that calls \<open>next\<close> twice.\<close>

theorem next_twice_runs_terminal_twice_witness:
  "0 < length (contexts (world1 ''hi''))
   \<and> (\<exists>response w'.
         buildInterceptorChain (sample_externals (\<lambda>p. []))
           (probes 0 [plain_probe ''a''] @ calls_next_twice # probes (Suc (length [plain_probe ''a''])) [])
           (request_of ''hi'') 0 (world1 ''hi'') = (Inr response, w')
         \<and> length (filter is_terminal_call (drop (length (trace (world1 ''hi''))) (trace w'))) = 2)"
  using next_twice_runs_terminal_twice [of 0 "world1 ''hi''" "sample_externals (\<lambda>p. [])"
      "[plain_probe ''a'']" "[]" "request_of ''hi''"]
  by (simp add: world1_def world0_def)

text \<open>
  C7 as stated fails: the chain of the single interceptor that calls \<open>next\<close> twice
  fulfils, after the final handler has been called twice.
\<close>

theorem next_twice_no_failure:
  "(case fst (buildInterceptorChain (sample_externals (\<lambda>p. [])) [calls_next_twice]
               (request_of ''hi'') 0 (world1 ''hi'')) of
      Inl e \<Rightarrow> False | Inr response \<Rightarrow> True)
   \<and> trace (snd (buildInterceptorChain (sample_externals (\<lambda>p. [])) [calls_next_twice]
                   (request_of ''hi'') 0 (world1 ''hi''))) =
       [TerminalCalled ''hi'', TerminalCalled ''hi'']"
  by (simp add: buildInterceptorChain_def wrap_twice finalHandler_def context_metrics_def
        world1_def world0_def request_of_def emit_def Let_def)

lemma wrap_thrower:
  "wrap (thrower name error) next request context w = (Inl (contextualError name error), w)"
  by (simp add: wrap_def thrower_def)

lemma message_contextualError:
  "message (contextualError name error) = failure_prefix name @ message error"
  by (simp add: contextualError_def failure_prefix_def)

lemma wrap_errors_snoc:
  "wrap_errors (names @ [name]) error = wrap_errors names (contextualError name error)"
  by (simp add: wrap_errors_def)

lemma message_wrap_errors:
  "message (wrap_errors names error) = concat (map failure_prefix names) @ message error"
  by (induction names) (simp_all add: wrap_errors_def message_contextualError)

lemma stack_wrap_errors: "stack (wrap_errors names error) = stack error"
  by (induction names) (simp_all add: wrap_errors_def contextualError_def)

lemma ename_wrap_errors:
  "ename (wrap_errors (names @ [name]) error) = ''Error''"
  by (induction names) (simp_all add: wrap_errors_def contextualError_def)

text \<open>
  C5, as the code has it. When an interceptor throws, the chain rejects with a plain
  \<open>Error\<close>: the error is wrapped once by the failing interceptor's wrapper and once
  more by the wrapper of each interceptor around it, each wrapping putting
  \<open>Interceptor '<name>' failed: \<close> before the message; the original message is the
  end of the final message and the original stack is kept. An interceptor named
  \<open>piiStripper\<close> that throws \<open>boom\<close> gives a message containing both.
\<close>

theorem failing_interceptor_wrapped:
  "buildInterceptorChain E (probes 0 outer @ thrower name error # rest) request context w =
     (Inl (wrap_errors (map probe_name outer @ [name]) error),
      w\<lparr>trace := trace w @ enter_events 0 request outer\<rparr>)
   \<and> ename (wrap_errors (map probe_name outer @ [name]) error) = ''Error''
   \<and> message (wrap_errors (map probe_name outer @ [name]) error) =
       concat (map failure_prefix (map probe_name outer @ [name])) @ message error
   \<and> stack (wrap_errors (map probe_name outer @ [name]) error) = stack error
   \<and> sublist ''piiStripper'' (message (wrap_errors [''piiStripper''] boom))
   \<and> sublist ''boom'' (message (wrap_errors [''piiStripper''] boom))"
proof -
  have chain: "buildInterceptorChain E (probes 0 outer @ thrower name error # rest)
      = foldr wrap (probes 0 outer) (wrap (thrower name error) (foldr wrap rest (finalHandler E)))"
    by (simp add: buildInterceptorChain_foldr)
  have run: "buildInterceptorChain E (probes 0 outer @ thrower name error # rest) request context w =
     (Inl (wrap_errors (map probe_name outer @ [name]) error),
      w\<lparr>trace := trace w @ enter_events 0 request outer\<rparr>)"
    unfolding chain chain_probes wrap_thrower by (simp add: wrap_errors_snoc)
  have m: "message (wrap_errors [''piiStripper''] boom) =
      (''Interceptor '' @ [CHR 0x27]) @ ''piiStripper'' @ ([CHR 0x27] @ '' failed: '' @ ''boom'')"
    by (simp add: message_wrap_errors failure_prefix_def boom_def)
  have s1: "sublist ''piiStripper'' (message (wrap_errors [''piiStripper''] boom))"
    unfolding m by (rule sublist_appendI)
  have m2: "message (wrap_errors [''piiStripper''] boom) =
      (''Interceptor '' @ [CHR 0x27] @ ''piiStripper'' @ [CHR 0x27] @ '' failed: '') @ ''boom'' @ []"
    by (simp add: message_wrap_errors failure_prefix_def boom_def)
  have s2: "sublist ''boom'' (message (wrap_errors [''piiStripper''] boom))"
    unfolding m2 by (rule sublist_appendI)
  show ?thesis
    using run s1 s2 by (simp add: message_wrap_errors stack_wrap_errors ename_wrap_errors)
qed

text \<open>
  C5 as stated fails: the error is not of the \<open>InterceptorChainError\<close> kind, and with
  one interceptor around the failing one it is wrapped twice, not once.
\<close>

theorem wrapped_error_is_plain_and_nested:
  "fst (buildInterceptorChain (sample_externals (\<lambda>p. [])) [thrower ''piiStripper'' boom]
          (request_of ''hi'') 0 (world1 ''hi'')) =
     Inl \<lparr>ename = ''Error'',
          message = ''Interceptor '' @ [CHR 0x27] @ ''piiStripper'' @ [CHR 0x27] @ '' failed: boom'',
          stack = ''at piiStripper'', detail = None\<rparr>
   \<and> ''Error'' \<noteq> ''InterceptorChainError''
   \<and> fst (buildInterceptorChain (sample_externals (\<lambda>p. []))
            [probe 0 (plain_probe ''outer''), thrower ''piiStripper'' boom]
            (request_of ''hi'') 0 (world1 ''hi'')) =
     Inl \<lparr>ename = ''Error'',
          message = ''Interceptor '' @ [CHR 0x27] @ ''outer'' @ [CHR 0x27] @ '' failed: ''
                      @ ''Interceptor '' @ [CHR 0x27] @ ''piiStripper'' @ [CHR 0x27]
                      @ '' failed: boom'',
          stack = ''at piiStripper'', detail = None\<rparr>"
  by (simp add: buildInterceptorChain_def wrap_thrower wrap_probe contextualError_def boom_def
        plain_probe_def)

section \<open>Properties of the client\<close>

lemma timeout_class_type_only:
  "''InterceptorTimeoutError'' \<in> set type_only_imports
   \<and> ''InterceptorTimeoutError'' \<notin> set value_imports"
  by (simp add: type_only_imports_def value_imports_def)

lemma unbound_timeout_class:
  "imported_value ''InterceptorTimeoutError'' = Inl (reference_error ''InterceptorTimeoutError'')"
  by (simp add: imported_value_def value_imports_def)

lemma executeWithTimeout_armed:
  assumes "timeout config = Some t" and "0 < t"
  shows "executeWithTimeout config started (result, w) =
     (result, w\<lparr>timers := timers w @ [(started, t)],
               uncaught := uncaught w @ [(started + t, reference_error ''InterceptorTimeoutError'')]\<rparr>)"
  using assms by (simp add: executeWithTimeout_def unbound_timeout_class Let_def)

lemma rethrown_unbound: "rethrown w context error = reference_error ''InterceptorTimeoutError''"
  by (simp add: rethrown_def unbound_timeout_class)

lemma processQuery_error:
  assumes "interceptors this \<noteq> []"
  shows "snd (fst (processQuery E this w)) = None
       \<or> snd (fst (processQuery E this w)) = Some (reference_error ''InterceptorTimeoutError'')"
  using assms
  by (simp add: processQuery_def Let_def rethrown_unbound split: prod.splits sum.splits option.splits)

text \<open>
  C8. A client made with no interceptors (the list absent or empty) runs
  \<open>processQuery\<close> as \<open>executeOriginalFlow\<close> itself, for every prompt, options and
  world: the same messages, the same completion, the same world afterwards. No context
  object is allocated, no timer is armed, and the only events are those of the
  transport: the final handler of the chain is not even built.
\<close>

theorem empty_chain_is_original_flow:
  assumes "cfg_interceptors config = None \<or> cfg_interceptors config = Some []"
  shows "processQuery E (fst (constructor E p opts config w0)) w = executeOriginalFlow E w
       \<and> contexts (snd (processQuery E (fst (constructor E p opts config w0)) w)) = contexts w
       \<and> timers (snd (processQuery E (fst (constructor E p opts config w0)) w)) = timers w
       \<and> trace (snd (processQuery E (fst (constructor E p opts config w0)) w)) =
           trace w @ [TransportCreated (this_prompt w), Disconnected]"
proof -
  have "interceptors (fst (constructor E p opts config w0)) = []"
    using assms by (auto simp add: constructor_def)
  then have "processQuery E (fst (constructor E p opts config w0)) w = executeOriginalFlow E w"
    by (simp add: processQuery_def)
  then show ?thesis
    by (simp add: executeOriginalFlow_def emit_def Let_def)
qed

text \<open>An empty interceptor list, on a process that emits one assistant record.\<close>

theorem empty_chain_is_original_flow_witness:
  "cfg_interceptors (config_of [] None) = Some []
   \<and> processQuery (sample_externals (\<lambda>p. [raw ''assistant'']))
        (fst (constructor (sample_externals (\<lambda>p. [raw ''assistant''])) ''hi'' Map.empty
               (config_of [] None) (world0 [])))
        (world0 ''hi'') =
      (([AssistantMessage [] None], None),
       (world0 ''hi'')\<lparr>trace := [TransportCreated ''hi'', Disconnected]\<rparr>)"
  using empty_chain_is_original_flow [of "config_of [] None"
      "sample_externals (\<lambda>p. [raw ''assistant''])" "''hi''" Map.empty "world0 []" "world0 ''hi''"]
  by (simp add: config_of_def executeOriginalFlow_def sample_externals_def plain_run_def
        raw_def world0_def parseMessage_def emit_def Let_def)

text \<open>
  C6, what the code does. With interceptors and a timeout of \<open>t\<close> milliseconds the
  timer is armed, but its callback throws a \<open>ReferenceError\<close> at \<open>started + t\<close>
  instead of rejecting (the class is a type-only import of the client module), so the
  race settles exactly as the chain does; and whatever error reaches the \<open>catch\<close> of
  \<open>processQuery\<close> leaves it as that \<open>ReferenceError\<close>, for the same reason. The
  invocation never fails with an \<open>InterceptorTimeoutError\<close>.
\<close>

theorem chain_timeout_never_raised:
  assumes "interceptors this \<noteq> []" and "timeout (interceptorConfig this) = Some t" and "0 < t"
  shows "(case snd (fst (processQuery E this w)) of
            None \<Rightarrow> True
          | Some e \<Rightarrow> e = reference_error ''InterceptorTimeoutError'')
       \<and> executeWithTimeout (interceptorConfig this) started (result, w') =
           (result, w'\<lparr>timers := timers w' @ [(started, t)],
                      uncaught := uncaught w' @
                        [(started + t, reference_error ''InterceptorTimeoutError'')]\<rparr>)"
  using processQuery_error [OF assms(1), of E w] executeWithTimeout_armed [OF assms(2,3)]
  by auto

text \<open>
  Timeout \<open>50\<close>, one interceptor that waits \<open>200\<close> ms before it calls \<open>next\<close>: the
  invocation completes at \<open>200\<close> with the process's message, and the timer callback's
  exception is uncaught at \<open>50\<close>.
\<close>

theorem chain_timeout_never_raised_witness:
  "interceptors (fst (constructor (sample_externals (\<lambda>p. [raw ''assistant''])) ''hi'' Map.empty
                        (config_of [waits 200] (Some 50)) (world0 []))) \<noteq> []
   \<and> timeout (interceptorConfig
        (fst (constructor (sample_externals (\<lambda>p. [raw ''assistant''])) ''hi'' Map.empty
               (config_of [waits 200] (Some 50)) (world0 [])))) = Some 50
   \<and> (0::nat) < 50
   \<and> fst (processQuery (sample_externals (\<lambda>p. [raw ''assistant'']))
        (fst (constructor (sample_externals (\<lambda>p. [raw ''assistant''])) ''hi'' Map.empty
               (config_of [waits 200] (Some 50)) (world0 [])))
        (world0 ''hi'')) = ([AssistantMessage [] None], None)
   \<and> clock (snd (processQuery (sample_externals (\<lambda>p. [raw ''assistant'']))
        (fst (constructor (sample_externals (\<lambda>p. [raw ''assistant''])) ''hi'' Map.empty
               (config_of [waits 200] (Some 50)) (world0 [])))
        (world0 ''hi''))) = 200
   \<and> uncaught (snd (processQuery (sample_externals (\<lambda>p. [raw ''assistant'']))
        (fst (constructor (sample_externals (\<lambda>p. [raw ''assistant''])) ''hi'' Map.empty
               (config_of [waits 200] (Some 50)) (world0 [])))
        (world0 ''hi''))) = [(50, reference_error ''InterceptorTimeoutError'')]"
  using chain_timeout_never_raised
    [of "fst (constructor (sample_externals (\<lambda>p. [raw ''assistant''])) ''hi'' Map.empty
               (config_of [waits 200] (Some 50)) (world0 []))" 50
        "sample_externals (\<lambda>p. [raw ''assistant''])" "world0 ''hi''" 0 "Inr ()" "world0 ''hi''"]
  by (simp add: processQuery_def constructor_def config_of_def buildInterceptorChain_def
        wrap_def waits_def finalHandler_def context_metrics_def executeWithTimeout_def
        unbound_timeout_class executeOriginalFlow_def sample_externals_def plain_run_def
        raw_def world0_def parseMessage_def emit_def Let_def)

text \<open>
  C10, what the code does. Without a \<open>timeout\<close> and a \<open>maxContextSize\<close> in the
  configuration the client records the defaults \<open>30000\<close> and \<open>1048576\<close>, and
  \<open>executeWithTimeout\<close> arms a timer of \<open>30000\<close> ms; when it fires, its callback
  throws a \<open>ReferenceError\<close> instead of rejecting, and the race settles as the chain
  does.
\<close>

theorem default_timeout_applied:
  assumes "timeout config = None" and "maxContextSize config = None"
  shows "timeout (interceptorConfig (fst (constructor E p opts config w0))) = Some 30000
       \<and> maxContextSize (interceptorConfig (fst (constructor E p opts config w0))) = Some 1048576
       \<and> executeWithTimeout (interceptorConfig (fst (constructor E p opts config w0))) started
           (result, w) =
           (result, w\<lparr>timers := timers w @ [(started, 30000)],
                     uncaught := uncaught w @
                       [(started + 30000, reference_error ''InterceptorTimeoutError'')]\<rparr>)"
proof -
  have t: "timeout (interceptorConfig (fst (constructor E p opts config w0))) = Some 30000"
    using assms by (simp add: constructor_def)
  have m: "maxContextSize (interceptorConfig (fst (constructor E p opts config w0))) = Some 1048576"
    using assms by (simp add: constructor_def)
  show ?thesis
    using t m executeWithTimeout_armed [OF t, of started result w] by simp
qed

text \<open>
  No timeout configured, one interceptor that waits \<open>31000\<close> ms: the invocation
  completes at \<open>31000\<close>, under a timer of \<open>30000\<close> whose callback failed.
\<close>

theorem default_timeout_applied_witness:
  "timeout (config_of [waits 31000] None) = None
   \<and> maxContextSize (config_of [waits 31000] None) = None
   \<and> fst (processQuery (sample_externals (\<lambda>p. [raw ''assistant'']))
        (fst (constructor (sample_externals (\<lambda>p. [raw ''assistant''])) ''hi'' Map.empty
               (config_of [waits 31000] None) (world0 [])))
        (world0 ''hi'')) = ([AssistantMessage [] None], None)
   \<and> clock (snd (processQuery (sample_externals (\<lambda>p. [raw ''assistant'']))
        (fst (constructor (sample_externals (\<lambda>p. [raw ''assistant''])) ''hi'' Map.empty
               (config_of [waits 31000] None) (world0 [])))
        (world0 ''hi''))) = 31000
   \<and> timers (snd (processQuery (sample_externals (\<lambda>p. [raw ''assistant'']))
        (fst (constructor (sample_externals (\<lambda>p. [raw ''assistant''])) ''hi'' Map.empty
               (config_of [waits 31000] None) (world0 [])))
        (world0 ''hi''))) = [(0, 30000)]
   \<and> uncaught (snd (processQuery (sample_externals (\<lambda>p. [raw ''assistant'']))
        (fst (constructor (sample_externals (\<lambda>p. [raw ''assistant''])) ''hi'' Map.empty
               (config_of [waits 31000] None) (world0 [])))
        (world0 ''hi''))) = [(30000, reference_error ''InterceptorTimeoutError'')]"
  using default_timeout_applied
    [of "config_of [waits 31000] None" "sample_externals (\<lambda>p. [raw ''assistant''])" "''hi''"
        Map.empty "world0 []" 0 "Inr ()" "world0 ''hi''"]
  by (simp add: processQuery_def constructor_def config_of_def buildInterceptorChain_def
        wrap_def waits_def finalHandler_def context_metrics_def executeWithTimeout_def
        unbound_timeout_class executeOriginalFlow_def sample_externals_def plain_run_def
        raw_def world0_def parseMessage_def emit_def Let_def)

section \<open>Properties of the response consumer and of the session\<close>

lemma consume_consumed: "consumed p \<Longrightarrow> consume p = (failure p, p)"
  by (simp add: consume_def)

lemma consumed_consume: "consumed (snd (consume p))"
  by (simp add: consume_def)


lemma call_method_parser: "snd (call_method parse m p) = snd (consume p)"
  by (cases "consume p") (simp add: call_method_def split: option.splits)

lemma call_methods_step:
  "snd (call_methods parse (m # ms) p) = snd (call_methods parse ms (snd (call_method parse m p)))"
  by (simp split: prod.splits)

lemma call_methods_consumed: "consumed p \<Longrightarrow> snd (call_methods parse ms p) = p"
proof (induction ms)
  case Nil
  show ?case by simp
next
  case (Cons m ms)
  have "snd (call_method parse m p) = p"
    using Cons.prems by (simp add: call_method_parser consume_consumed)
  then show ?case using Cons unfolding call_methods_step by simp
qed

lemma call_methods_Cons:
  "snd (call_methods parse (m # ms) p) = snd (consume p)"
proof -
  show ?thesis
    unfolding call_methods_step
    by (simp add: call_method_parser call_methods_consumed consumed_consume)
qed

text \<open>
  C2. For every consumer and every sequence of extraction calls, the underlying generator
  is iterated at most once: not at all before the first call, and exactly once after any
  number of calls, of the same or of different methods. The first call drains the whole
  stream into the cache; every later call leaves the consumer as it is and computes its
  result from the cache (or reports the error the drain ended with).
\<close>

theorem generator_iterated_at_most_once:
  "iterations (snd (call_methods parse ms (new_parser g))) = (if ms = [] then 0 else 1)
   \<and> parser_messages (snd (call_methods parse (m # ms) (new_parser g))) = fst g
   \<and> snd (call_method parse m' (snd (call_methods parse (m # ms) (new_parser g)))) =
       snd (call_methods parse (m # ms) (new_parser g))
   \<and> fst (call_method parse m' (snd (call_methods parse (m # ms) (new_parser g)))) =
       (case snd g of
          None \<Rightarrow> view_of parse m' (fst g)
        | Some e \<Rightarrow> if m' = Succeeded then Inr (VBool False) else Inl e)"
proof -
  have c: "snd (consume (new_parser g)) =
      \<lparr>generator = g, parser_messages = fst g, consumed = True, failure = snd g, iterations = 1\<rparr>"
    by (simp add: consume_def new_parser_def)
  have it: "iterations (snd (call_methods parse ms (new_parser g))) = (if ms = [] then 0 else 1)"
    by (cases ms) (simp_all add: call_methods_Cons c del: call_methods.simps(2), simp add: new_parser_def)
  show ?thesis
    unfolding it call_methods_Cons c
    by (simp add: call_method_def consume_def split: option.splits)
qed











lemma generator_drained [simp]: "generator (drained g) = g"
  by (simp add: drained_def)

lemma generator_new [simp]: "generator (new_parser g) = g"
  by (simp add: new_parser_def)

lemma messages_drained [simp]: "parser_messages (drained g) = fst g"
  by (simp add: drained_def)

lemma wf_drained [simp]: "wf_parser (drained g)"
  by (simp add: wf_parser_def)

lemma wf_new [simp]: "wf_parser (new_parser g)"
  by (simp add: wf_parser_def)












end
